theory Spec2Isabelle
  imports Complex_Main "HOL-Library.Monad_Syntax"
begin

section \<open>Python values\<close>

text \<open>
  The program is \<^verbatim>\<open>bbox.py\<close>: \<^verbatim>\<open>extract_bounding_boxes\<close> decodes the reply of a
  vision model into labelled boxes and \<^verbatim>\<open>draw_bounding_boxes\<close> draws them on an image.

  Modelling conventions.
  \<^item> The text handed to the decoder is a \<open>string\<close>; a \<open>char\<close> stands for the code point
    of the same number, so the texts covered are those over U+0000..U+00FF.
    String \<^emph>\<open>values\<close> are lists of code points (\<open>pystr\<close>), because a JSON escape
    can denote any code point.
  \<^item> Exceptions are values of type \<open>exn\<close>; a function that can raise returns
    \<open>exn + 'a\<close>.
  \<^item> Python's \<^verbatim>\<open>int\<close> is \<open>int\<close>. A Python \<^verbatim>\<open>float\<close> is idealised: a finite float is
    the exact rational it stands for (rounding to 53 bits is not modelled), a result
    whose magnitude reaches the overflow threshold of binary64 is an infinity, and
    \<^verbatim>\<open>nan\<close> is a value of its own.
  \<^item> Limits of the interpreter (recursion depth, the cap on the number of digits
    \<^verbatim>\<open>int()\<close> converts, memory) are not modelled.
\<close>

datatype exn =
  JSONDecodeError | RecursionError | AttributeError | TypeError | ValueError | OverflowError

type_synonym pystr = "nat list"

definition py_str :: "string \<Rightarrow> pystr" where
  "py_str s = map of_char s"

datatype pyfloat = Fin rat | PInf | NInf | NaN

definition float_overflow :: rat where
  "float_overflow = 2 ^ 1024 - 2 ^ 970"

definition to_float :: "rat \<Rightarrow> pyfloat" where
  "to_float r =
     (if float_overflow \<le> r then PInf
      else if r \<le> - float_overflow then NInf
      else Fin r)"

datatype json =
    JNull
  | JBool bool
  | JInt int
  | JFloat pyfloat
  | JString pystr
  | JArray "json list"
  | JObject "(pystr \<times> json) list"

text \<open>
  A Python \<^verbatim>\<open>dict\<close> keeps its keys in the order of their first insertion; assigning to a
  key that is present replaces the value where it stands. It is an association list
  with distinct keys, and \<open>dict_setitem\<close> is \<^verbatim>\<open>d[k] = v\<close>.
\<close>

fun dict_setitem :: "'k \<Rightarrow> 'v \<Rightarrow> ('k \<times> 'v) list \<Rightarrow> ('k \<times> 'v) list" where
  "dict_setitem k v [] = [(k, v)]"
| "dict_setitem k v ((k', v') # d) =
     (if k' = k then (k, v) # d else (k', v') # dict_setitem k v d)"

section \<open>The JSON decoder of the standard library\<close>

text \<open>
  \<^verbatim>\<open>json.loads\<close> with its default arguments, as CPython's scanner reads a \<^verbatim>\<open>str\<close>:
  whitespace is space, tab, line feed and carriage return; strings are strict (no raw
  control character); \<^verbatim>\<open>NaN\<close>, \<^verbatim>\<open>Infinity\<close> and \<^verbatim>\<open>-Infinity\<close> are accepted; a repeated
  key of an object keeps its first position and its last value.
\<close>

definition is_json_ws :: "char \<Rightarrow> bool" where
  "is_json_ws c \<longleftrightarrow> c \<in> set [CHR 0x20, CHR 0x09, CHR 0x0A, CHR 0x0D]"

definition skip_ws :: "string \<Rightarrow> string" where
  "skip_ws cs = dropWhile is_json_ws cs"

definition is_ascii_digit :: "char \<Rightarrow> bool" where
  "is_ascii_digit c \<longleftrightarrow> c \<in> set ''0123456789''"

definition digit_value :: "char \<Rightarrow> nat" where
  "digit_value c = of_char c - 48"

definition nat_of_digits :: "string \<Rightarrow> nat" where
  "nat_of_digits ds = foldl (\<lambda>a c. 10 * a + digit_value c) 0 ds"

definition hex_value :: "char \<Rightarrow> nat option" where
  "hex_value c =
     (if is_ascii_digit c then Some (of_char c - 48)
      else if c \<in> set ''abcdef'' then Some (of_char c - 87)
      else if c \<in> set ''ABCDEF'' then Some (of_char c - 55)
      else None)"

definition hex4 :: "string \<Rightarrow> (nat \<times> string) option" where
  "hex4 cs =
     (case cs of
        a # b # c # d # r \<Rightarrow>
          (case (hex_value a, hex_value b, hex_value c, hex_value d) of
             (Some x, Some y, Some z, Some w) \<Rightarrow> Some (((x * 16 + y) * 16 + z) * 16 + w, r)
           | _ \<Rightarrow> None)
      | _ \<Rightarrow> None)"

definition simple_escape :: "char \<Rightarrow> nat option" where
  "simple_escape c =
     (if c = CHR 0x22 \<or> c = CHR 0x5C \<or> c = CHR ''/'' then Some (of_char c)
      else if c = CHR ''b'' then Some 8
      else if c = CHR ''f'' then Some 12
      else if c = CHR ''n'' then Some 10
      else if c = CHR ''r'' then Some 13
      else if c = CHR ''t'' then Some 9
      else None)"

definition is_high_surrogate :: "nat \<Rightarrow> bool" where
  "is_high_surrogate c \<longleftrightarrow> 0xD800 \<le> c \<and> c \<le> 0xDBFF"

definition is_low_surrogate :: "nat \<Rightarrow> bool" where
  "is_low_surrogate c \<longleftrightarrow> 0xDC00 \<le> c \<and> c \<le> 0xDFFF"

definition join_surrogates :: "nat \<Rightarrow> nat \<Rightarrow> nat" where
  "join_surrogates hi lo = 0x10000 + (hi - 0xD800) * 0x400 + (lo - 0xDC00)"

text \<open>
  One step of \<^verbatim>\<open>scanstring\<close> at a backslash: the code point the escape denotes and the
  text after it, or \<open>None\<close> where the scanner raises.
\<close>

definition scan_escape :: "string \<Rightarrow> (nat \<times> string) option" where
  "scan_escape cs =
     (case cs of
        [] \<Rightarrow> None
      | e # r \<Rightarrow>
          if e = CHR ''u'' then
            (case hex4 r of
               None \<Rightarrow> None
             | Some (c1, r1) \<Rightarrow>
                 (case r1 of
                    b # u # r2 \<Rightarrow>
                      if is_high_surrogate c1 \<and> b = CHR 0x5C \<and> u = CHR ''u'' then
                        (case hex4 r2 of
                           None \<Rightarrow> None
                         | Some (c2, r3) \<Rightarrow>
                             if is_low_surrogate c2 then Some (join_surrogates c1 c2, r3)
                             else Some (c1, r1))
                      else Some (c1, r1)
                  | _ \<Rightarrow> Some (c1, r1)))
          else (case simple_escape e of None \<Rightarrow> None | Some c \<Rightarrow> Some (c, r)))"

lemma hex4_length: "hex4 cs = Some (v, r) \<Longrightarrow> length r < length cs"
  by (auto simp: hex4_def split: list.splits option.splits)

lemma scan_escape_length: "scan_escape cs = Some (v, r) \<Longrightarrow> length r < length cs"
  by (auto simp: scan_escape_def split: list.splits option.splits if_splits
      dest!: hex4_length)

text \<open>
  \<^verbatim>\<open>scanstring\<close> from the character after the opening quote: the decoded string and
  the text after the closing quote.
\<close>

function scanstring :: "pystr \<Rightarrow> string \<Rightarrow> (pystr \<times> string) option" where
  "scanstring acc [] = None"
| "scanstring acc (c # cs) =
     (if c = CHR 0x22 then Some (rev acc, cs)
      else if c = CHR 0x5C then
        (case scan_escape cs of
           None \<Rightarrow> None
         | Some (v, r) \<Rightarrow> scanstring (v # acc) r)
      else if (of_char c :: nat) < 32 then None
      else scanstring (of_char c # acc) cs)"
  by pat_completeness auto
termination
  by (relation "measure (\<lambda>(acc, cs). length cs)") (auto dest: scan_escape_length)

text \<open>
  A number, as \<^verbatim>\<open>_match_number\<close> reads it: an optional minus, \<^verbatim>\<open>0\<close> or a digit string
  without leading zero, then a fraction and an exponent when they are complete. With a
  fraction or an exponent the value is a float, else an int.
\<close>

definition decimal_value :: "int \<Rightarrow> int \<Rightarrow> rat" where
  "decimal_value m e = (if 0 \<le> e then of_int m * 10 ^ nat e else of_int m / 10 ^ nat (- e))"

definition number_int_part :: "string \<Rightarrow> (string \<times> string) option" where
  "number_int_part cs =
     (case cs of
        [] \<Rightarrow> None
      | d # r \<Rightarrow>
          if d = CHR ''0'' then Some ([d], r)
          else if is_ascii_digit d
          then Some (d # takeWhile is_ascii_digit r, dropWhile is_ascii_digit r)
          else None)"

definition number_frac :: "string \<Rightarrow> string \<times> string" where
  "number_frac cs =
     (case cs of
        p # f # r \<Rightarrow>
          if p = CHR ''.'' \<and> is_ascii_digit f
          then (takeWhile is_ascii_digit (f # r), dropWhile is_ascii_digit (f # r))
          else ([], cs)
      | _ \<Rightarrow> ([], cs))"

definition number_exp :: "string \<Rightarrow> int option \<times> string" where
  "number_exp cs =
     (case cs of
        [] \<Rightarrow> (None, cs)
      | e # r \<Rightarrow>
          if e = CHR ''e'' \<or> e = CHR ''E'' then
            (let signed = (r \<noteq> [] \<and> (hd r = CHR ''-'' \<or> hd r = CHR ''+''));
                 r' = (if signed then tl r else r);
                 ds = takeWhile is_ascii_digit r'
             in if ds = [] then (None, cs)
                else (Some (if signed \<and> hd r = CHR ''-'' then - int (nat_of_digits ds)
                            else int (nat_of_digits ds)),
                      dropWhile is_ascii_digit r'))
          else (None, cs))"

definition match_number :: "string \<Rightarrow> (json \<times> string) option" where
  "match_number cs =
     (let neg = (cs \<noteq> [] \<and> hd cs = CHR ''-'');
          sgn = (if neg then - 1 else 1 :: int)
      in case number_int_part (if neg then tl cs else cs) of
           None \<Rightarrow> None
         | Some (ipart, r1) \<Rightarrow>
             (case number_frac r1 of
                (fpart, r2) \<Rightarrow>
                  (case number_exp r2 of
                     (ex, r3) \<Rightarrow>
                       if fpart = [] \<and> ex = None
                       then Some (JInt (sgn * int (nat_of_digits ipart)), r3)
                       else Some (JFloat (to_float
                                    (decimal_value (sgn * int (nat_of_digits (ipart @ fpart)))
                                       ((case ex of None \<Rightarrow> 0 | Some x \<Rightarrow> x) - int (length fpart)))),
                                  r3))))"

text \<open>
  The values that are not containers: a string, a literal name or a number, tried in
  the order of \<^verbatim>\<open>scan_once\<close>.
\<close>

definition strip_prefix :: "string \<Rightarrow> string \<Rightarrow> string option" where
  "strip_prefix p cs = (if take (length p) cs = p then Some (drop (length p) cs) else None)"

definition scan_atom :: "string \<Rightarrow> (json \<times> string) option" where
  "scan_atom cs =
     (case cs of
        [] \<Rightarrow> None
      | c # r \<Rightarrow>
          if c = CHR 0x22 then
            (case scanstring [] r of None \<Rightarrow> None | Some (s, r') \<Rightarrow> Some (JString s, r'))
          else if strip_prefix ''null'' cs \<noteq> None then Some (JNull, drop 4 cs)
          else if strip_prefix ''true'' cs \<noteq> None then Some (JBool True, drop 4 cs)
          else if strip_prefix ''false'' cs \<noteq> None then Some (JBool False, drop 5 cs)
          else if strip_prefix ''NaN'' cs \<noteq> None then Some (JFloat NaN, drop 3 cs)
          else if strip_prefix ''Infinity'' cs \<noteq> None then Some (JFloat PInf, drop 8 cs)
          else if strip_prefix ''-Infinity'' cs \<noteq> None then Some (JFloat NInf, drop 9 cs)
          else match_number cs)"

datatype scan = Ok json string | Stop | Deep

text \<open>
  \<^verbatim>\<open>scan_once\<close> and the loops of \<^verbatim>\<open>_parse_array\<close> and \<^verbatim>\<open>_parse_object\<close>. The first
  argument bounds the number of nested calls; \<open>Deep\<close> is the result when it is used up,
  \<open>Stop\<close> is a decoding error. \<open>array_items\<close> starts at a value; \<open>object_items\<close> starts
  where a key must stand.
\<close>

fun scan_once :: "nat \<Rightarrow> string \<Rightarrow> scan"
  and array_items :: "nat \<Rightarrow> json list \<Rightarrow> string \<Rightarrow> scan"
  and object_items :: "nat \<Rightarrow> (pystr \<times> json) list \<Rightarrow> string \<Rightarrow> scan"
where
  "scan_once n [] = Stop"
| "scan_once n (c # r) =
     (if c = CHR ''{'' then
        (case skip_ws r of
           [] \<Rightarrow> Stop
         | d # r' \<Rightarrow>
             if d = CHR ''}'' then Ok (JObject []) r'
             else (case n of 0 \<Rightarrow> Deep | Suc m \<Rightarrow> object_items m [] (d # r')))
      else if c = CHR ''['' then
        (case skip_ws r of
           [] \<Rightarrow> Stop
         | d # r' \<Rightarrow>
             if d = CHR '']'' then Ok (JArray []) r'
             else (case n of 0 \<Rightarrow> Deep | Suc m \<Rightarrow> array_items m [] (d # r')))
      else (case scan_atom (c # r) of None \<Rightarrow> Stop | Some (v, r') \<Rightarrow> Ok v r'))"
| "array_items 0 acc cs = Deep"
| "array_items (Suc n) acc cs =
     (case scan_once n cs of
        Stop \<Rightarrow> Stop
      | Deep \<Rightarrow> Deep
      | Ok v r \<Rightarrow>
          (case skip_ws r of
             [] \<Rightarrow> Stop
           | d # r' \<Rightarrow>
               if d = CHR '']'' then Ok (JArray (rev (v # acc))) r'
               else if d = CHR '','' then array_items n (v # acc) (skip_ws r')
               else Stop))"
| "object_items 0 d cs = Deep"
| "object_items (Suc n) d cs =
     (case cs of
        [] \<Rightarrow> Stop
      | q # r \<Rightarrow>
          if q \<noteq> CHR 0x22 then Stop
          else
            (case scanstring [] r of
               None \<Rightarrow> Stop
             | Some (key, r1) \<Rightarrow>
                 (case skip_ws r1 of
                    [] \<Rightarrow> Stop
                  | colon # r2 \<Rightarrow>
                      if colon \<noteq> CHR '':'' then Stop
                      else
                        (case scan_once n (skip_ws r2) of
                           Stop \<Rightarrow> Stop
                         | Deep \<Rightarrow> Deep
                         | Ok v r3 \<Rightarrow>
                             (case skip_ws r3 of
                                [] \<Rightarrow> Stop
                              | e # r4 \<Rightarrow>
                                  if e = CHR ''}'' then Ok (JObject (dict_setitem key v d)) r4
                                  else if e = CHR '','' then
                                    object_items n (dict_setitem key v d) (skip_ws r4)
                                  else Stop)))))"

text \<open>
  \<^verbatim>\<open>json.loads(text)\<close>: one value between optional whitespace, and nothing after it.
  The bound is twice the length of the text, which no text uses up
  (\<open>json_loads_not_RecursionError\<close> below).
\<close>

definition json_loads :: "string \<Rightarrow> exn + json" where
  "json_loads text =
     (case scan_once (2 * length text) (skip_ws text) of
        Stop \<Rightarrow> Inl JSONDecodeError
      | Deep \<Rightarrow> Inl RecursionError
      | Ok v r \<Rightarrow> if skip_ws r = [] then Inr v else Inl JSONDecodeError)"

section \<open>The decoder\<close>

text \<open>
  The fallback pattern of \<^verbatim>\<open>extract_bounding_boxes\<close> is
  \<^verbatim>\<open>"([^"]+)":\s*\[(\d+),\s*(\d+),\s*(\d+),\s*(\d+)\]\<close>.
  On a \<^verbatim>\<open>str\<close> pattern \<^verbatim>\<open>\s\<close> is Unicode whitespace and \<^verbatim>\<open>\d\<close> a Unicode decimal digit;
  below U+0100 these are the characters of \<open>is_re_space\<close> and the ASCII digits.

  Every repetition of the pattern is followed by a character outside its class (a quote
  after \<^verbatim>\<open>[^"]+\<close>, a bracket or a digit after \<^verbatim>\<open>\s*\<close>, a comma or a bracket after
  \<^verbatim>\<open>\d+\<close>), so giving back characters can never turn a failure into a match, and the
  greedy reading is the only one the regex engine can succeed with.
\<close>

definition is_re_space :: "char \<Rightarrow> bool" where
  "is_re_space c \<longleftrightarrow>
     c \<in> set [CHR 0x09, CHR 0x0A, CHR 0x0B, CHR 0x0C, CHR 0x0D,
               CHR 0x1C, CHR 0x1D, CHR 0x1E, CHR 0x1F, CHR 0x20, CHR 0x85, CHR 0xA0]"

text \<open>
  The constructs the pattern is made of: a literal character, a starred class
  (\<^verbatim>\<open>\s*\<close>) and a group around a class repeated at least once (\<^verbatim>\<open>([^"]+)\<close>, \<^verbatim>\<open>(\d+)\<close>).
  \<open>re_match\<close> tries a pattern at the head of a text and gives the groups and the text
  after the match.
\<close>

datatype re_item = Lit char | Star "char \<Rightarrow> bool" | Group "char \<Rightarrow> bool"

fun re_match :: "re_item list \<Rightarrow> string \<Rightarrow> (string list \<times> string) option" where
  "re_match [] cs = Some ([], cs)"
| "re_match (Lit c # its) cs =
     (case cs of [] \<Rightarrow> None | x # r \<Rightarrow> if x = c then re_match its r else None)"
| "re_match (Star P # its) cs = re_match its (dropWhile P cs)"
| "re_match (Group P # its) cs =
     (if takeWhile P cs = [] then None
      else (case re_match its (dropWhile P cs) of
              None \<Rightarrow> None
            | Some (gs, r) \<Rightarrow> Some (takeWhile P cs # gs, r)))"

definition not_quote :: "char \<Rightarrow> bool" where
  "not_quote c \<longleftrightarrow> c \<noteq> CHR 0x22"

definition bbox_pattern :: "re_item list" where
  "bbox_pattern =
     [Lit (CHR 0x22), Group not_quote, Lit (CHR 0x22), Lit (CHR '':''),
      Star is_re_space, Lit (CHR ''[''), Group is_ascii_digit, Lit (CHR '',''),
      Star is_re_space, Group is_ascii_digit, Lit (CHR '',''),
      Star is_re_space, Group is_ascii_digit, Lit (CHR '',''),
      Star is_re_space, Group is_ascii_digit, Lit (CHR '']'')]"

lemma re_match_length: "re_match its cs = Some (gs, r) \<Longrightarrow> length r \<le> length cs"
proof (induction its cs arbitrary: gs r rule: re_match.induct)
  case (1 cs)
  then show ?case by simp
next
  case (2 c its cs)
  then show ?case by (fastforce split: list.splits if_splits)
next
  case (3 P its cs)
  then have "length r \<le> length (dropWhile P cs)" by simp
  then show ?case using length_dropWhile_le [of P cs] by linarith
next
  case (4 P its cs)
  then obtain gs' where "re_match its (dropWhile P cs) = Some (gs', r)"
    by (auto split: if_splits option.splits)
  with 4 have "length r \<le> length (dropWhile P cs)" by (auto split: if_splits)
  then show ?case using length_dropWhile_le [of P cs] by linarith
qed

lemma bbox_pattern_consumes:
  "re_match bbox_pattern cs = Some (gs, r) \<Longrightarrow> length r < length cs"
proof -
  assume m: "re_match bbox_pattern cs = Some (gs, r)"
  then obtain cs' where cs: "cs = CHR 0x22 # cs'"
    by (cases cs) (auto simp: bbox_pattern_def split: if_splits)
  with m have "re_match (tl bbox_pattern) cs' = Some (gs, r)"
    by (simp add: bbox_pattern_def)
  then have "length r \<le> length cs'" by (rule re_match_length)
  with cs show ?thesis by simp
qed

text \<open>
  \<^verbatim>\<open>re.findall(pattern, text)\<close>: the text is scanned from the left; where the pattern
  matches, its groups are collected and the scan goes on after the match, else it
  moves one character on. Each element is the tuple of the five groups.
\<close>

function re_findall :: "string \<Rightarrow> string list list" where
  "re_findall [] = []"
| "re_findall (c # cs) =
     (case re_match bbox_pattern (c # cs) of
        None \<Rightarrow> re_findall cs
      | Some (gs, r) \<Rightarrow> gs # re_findall r)"
  by pat_completeness auto
termination
  by (relation "measure length") (auto dest: bbox_pattern_consumes)

text \<open>
  The comprehension \<^verbatim>\<open>{label: list(map(int, coords)) for label, *coords in matches}\<close>:
  the entries are assigned from left to right to an empty \<^verbatim>\<open>dict\<close>. Every tuple of
  \<^verbatim>\<open>findall\<close> has its five components (\<open>re_findall_groups\<close> below), so the unpacking
  cannot fail.
\<close>

definition py_int :: "string \<Rightarrow> json" where
  "py_int ds = JInt (int (nat_of_digits ds))"

definition boxes_of_matches :: "string list list \<Rightarrow> (pystr \<times> json) list" where
  "boxes_of_matches ms =
     foldl (\<lambda>d m. case m of
                     [] \<Rightarrow> d
                   | label # coords \<Rightarrow> dict_setitem (py_str label) (JArray (map py_int coords)) d)
       [] ms"

text \<open>
  \<^verbatim>\<open>extract_bounding_boxes\<close>: what \<^verbatim>\<open>json.loads\<close> returns, whatever it is; on
  \<^verbatim>\<open>JSONDecodeError\<close>, and on no other exception, the matches of the pattern.
\<close>

definition extract_bounding_boxes :: "string \<Rightarrow> exn + json" where
  "extract_bounding_boxes text =
     (case json_loads text of
        Inr bboxes \<Rightarrow> Inr bboxes
      | Inl e \<Rightarrow>
          if e = JSONDecodeError then Inr (JObject (boxes_of_matches (re_findall text)))
          else Inl e)"

section \<open>Float arithmetic\<close>

text \<open>
  The operations the renderer uses on floats. An operation on finite operands gives
  the exact result, or an infinity once the threshold is reached; the special values
  follow IEEE 754. None of them raises. An \<^verbatim>\<open>int\<close> operand of a float operation is an
  image dimension, a font metric or a small constant: a machine integer, whose
  conversion to float is exact.
\<close>

fun fneg :: "pyfloat \<Rightarrow> pyfloat" where
  "fneg (Fin a) = Fin (- a)"
| "fneg PInf = NInf"
| "fneg NInf = PInf"
| "fneg NaN = NaN"

fun fadd :: "pyfloat \<Rightarrow> pyfloat \<Rightarrow> pyfloat" where
  "fadd (Fin a) (Fin b) = to_float (a + b)"
| "fadd NaN y = NaN"
| "fadd x NaN = NaN"
| "fadd PInf NInf = NaN"
| "fadd NInf PInf = NaN"
| "fadd PInf y = PInf"
| "fadd NInf y = NInf"
| "fadd (Fin a) y = y"

definition fsub :: "pyfloat \<Rightarrow> pyfloat \<Rightarrow> pyfloat" where
  "fsub x y = fadd x (fneg y)"

fun fmul :: "pyfloat \<Rightarrow> pyfloat \<Rightarrow> pyfloat" where
  "fmul (Fin a) (Fin b) = to_float (a * b)"
| "fmul NaN y = NaN"
| "fmul x NaN = NaN"
| "fmul (Fin a) y = (if a = 0 then NaN else if 0 < a then y else fneg y)"
| "fmul x (Fin b) = (if b = 0 then NaN else if 0 < b then x else fneg x)"
| "fmul x y = (if x = y then PInf else NInf)"

fun flt :: "pyfloat \<Rightarrow> pyfloat \<Rightarrow> bool" where
  "flt (Fin a) (Fin b) = (a < b)"
| "flt NaN y = False"
| "flt x NaN = False"
| "flt x NInf = False"
| "flt PInf y = False"
| "flt NInf y = True"
| "flt (Fin a) PInf = True"

definition of_pyint :: "int \<Rightarrow> pyfloat" where
  "of_pyint i = Fin (of_int i)"

text \<open>
  \<^verbatim>\<open>coord / 1000\<close>, by the type of \<^verbatim>\<open>coord\<close>. True division of two ints raises
  \<^verbatim>\<open>OverflowError\<close> when the quotient is too large for a float; a \<^verbatim>\<open>bool\<close> is the int 0
  or 1; a float is divided as a float; any other value has no division.
\<close>

definition div_1000 :: "json \<Rightarrow> exn + pyfloat" where
  "div_1000 coord =
     (case coord of
        JInt i \<Rightarrow>
          if float_overflow \<le> \<bar>of_int i / 1000\<bar> then Inl OverflowError
          else Inr (Fin (of_int i / 1000))
      | JBool b \<Rightarrow> Inr (Fin ((if b then 1 else 0) / 1000))
      | JFloat f \<Rightarrow> Inr (case f of Fin a \<Rightarrow> Fin (a / 1000) | _ \<Rightarrow> f)
      | _ \<Rightarrow> Inl TypeError)"

section \<open>Images and drawing\<close>

text \<open>
  Pillow is outside the program. An image is the picture it was made from (\<open>source\<close>)
  and the drawing calls made on it since, in order (\<open>overlay\<close>); two images with the
  same size, source and overlay have the same pixels. A drawing call is recorded with
  its arguments as the program passes them; what the primitive makes of them is
  Pillow's.
\<close>

datatype font = TrueType string nat | DefaultFont

datatype draw_op =
    Rectangle "pyfloat list" "string option" "string option" int
  | Text "pyfloat \<times> pyfloat" pystr font string

text \<open>
  \<open>Rectangle xy fill outline width\<close> is \<^verbatim>\<open>draw.rectangle(xy, fill, outline, width)\<close> and
  \<open>Text xy text font fill\<close> is \<^verbatim>\<open>draw.text(xy, text, font=font, fill=fill)\<close>.
\<close>

record image =
  width :: int
  height :: int
  source :: nat
  overlay :: "draw_op list"

type_synonym addr = nat

text \<open>
  Image objects live in a heap, so that two names of one object can be told from two
  objects: \<open>next_addr\<close> is the first address not yet given out. \<open>draws\<close> counts the
  calls of \<^verbatim>\<open>random.randint\<close> so far.
\<close>

record world =
  heap :: "addr \<Rightarrow> image"
  next_addr :: addr
  draws :: nat

text \<open>
  What the program reads from its surroundings: the file system, the font loader, the
  font's metrics and the random generator (\<open>randint k\<close> is the result of the \<open>k\<close>-th
  call of \<^verbatim>\<open>random.randint(0, 0xFFFFFF)\<close>).
\<close>

record env =
  path_exists :: "string \<Rightarrow> bool"
  truetype_loads :: "string \<Rightarrow> bool"
  getbbox :: "font \<Rightarrow> pystr \<Rightarrow> int \<times> int \<times> int \<times> int"
  randint :: "nat \<Rightarrow> nat"

definition image_copy :: "addr \<Rightarrow> world \<Rightarrow> addr \<times> world" where
  "image_copy a w =
     (next_addr w, w\<lparr>heap := (heap w)(next_addr w := heap w a), next_addr := Suc (next_addr w)\<rparr>)"

definition draw :: "addr \<Rightarrow> draw_op \<Rightarrow> world \<Rightarrow> world" where
  "draw a op w = w\<lparr>heap := (heap w)(a := (heap w a)\<lparr>overlay := overlay (heap w a) @ [op]\<rparr>)\<rparr>"

subsection \<open>Colours and fonts\<close>

definition hex_char :: "nat \<Rightarrow> char" where
  "hex_char d = ''0123456789abcdef'' ! (d mod 16)"

function hex_str :: "nat \<Rightarrow> string" where
  "hex_str n = (if n < 16 then [hex_char n] else hex_str (n div 16) @ [hex_char n])"
  by pat_completeness auto
termination
  by (relation "measure id") auto

text \<open>\<^verbatim>\<open>"#{:06x}".format(n)\<close>: lower-case hexadecimal, padded with zeros to six digits.\<close>

definition format_color :: "nat \<Rightarrow> string" where
  "format_color n = CHR ''#'' # replicate (6 - length (hex_str n)) (CHR ''0'') @ hex_str n"

definition generate_random_color :: "env \<Rightarrow> world \<Rightarrow> string \<times> world" where
  "generate_random_color e w = (format_color (randint e (draws w)), w\<lparr>draws := Suc (draws w)\<rparr>)"

definition font_files :: "string list" where
  "font_files = [''NotoSansCJK-Regular.ttc'']"

text \<open>
  \<^verbatim>\<open>get_font\<close>: the first listed file that exists and loads; a file that fails to load
  (\<^verbatim>\<open>IOError\<close>) is passed over; the default font when none is left.
\<close>

fun first_font :: "env \<Rightarrow> string list \<Rightarrow> nat \<Rightarrow> font" where
  "first_font e [] sz = DefaultFont"
| "first_font e (f # fs) sz =
     (if path_exists e f \<and> truetype_loads e f then TrueType f sz else first_font e fs sz)"

definition get_font :: "env \<Rightarrow> nat \<Rightarrow> font" where
  "get_font e sz = first_font e font_files sz"

subsection \<open>The renderer\<close>

definition draw_text_with_outline ::
  "addr \<Rightarrow> pystr \<Rightarrow> pyfloat \<times> pyfloat \<Rightarrow> font \<Rightarrow> string \<Rightarrow> string \<Rightarrow> world \<Rightarrow> world" where
  "draw_text_with_outline a txt position fnt text_color outline_color w =
     (let x = fst position; y = snd position;
          w1 = draw a (Text (fsub x (of_pyint 1), fsub y (of_pyint 1)) txt fnt outline_color) w;
          w2 = draw a (Text (fadd x (of_pyint 1), fsub y (of_pyint 1)) txt fnt outline_color) w1;
          w3 = draw a (Text (fsub x (of_pyint 1), fadd y (of_pyint 1)) txt fnt outline_color) w2;
          w4 = draw a (Text (fadd x (of_pyint 1), fadd y (of_pyint 1)) txt fnt outline_color) w3
      in draw a (Text position txt fnt text_color) w4)"

text \<open>
  What iterating over a box yields: the elements of a list, the characters of a string,
  the keys of a dict; any other value is not iterable.
\<close>

definition py_iter :: "json \<Rightarrow> exn + json list" where
  "py_iter v =
     (case v of
        JArray xs \<Rightarrow> Inr xs
      | JString s \<Rightarrow> Inr (map (\<lambda>c. JString [c]) s)
      | JObject d \<Rightarrow> Inr (map (\<lambda>kv. JString (fst kv)) d)
      | _ \<Rightarrow> Inl TypeError)"

text \<open>
  The list comprehension \<^verbatim>\<open>[coord / 1000 * dim for coord, dim in zip(bbox, dims)]\<close>,
  element by element from the left; the first exception ends it.
\<close>

fun scale_all :: "(json \<times> int) list \<Rightarrow> exn + pyfloat list" where
  "scale_all [] = Inr []"
| "scale_all ((coord, dm) # rest) =
     (case div_1000 coord of
        Inl e \<Rightarrow> Inl e
      | Inr q \<Rightarrow>
          (case scale_all rest of
             Inl e \<Rightarrow> Inl e
           | Inr ps \<Rightarrow> Inr (fmul q (of_pyint dm) # ps)))"

text \<open>The local variables \<^verbatim>\<open>ymin, xmin, ymax, xmax\<close> of one turn of the loop.\<close>

record box =
  ymin :: pyfloat
  xmin :: pyfloat
  ymax :: pyfloat
  xmax :: pyfloat

text \<open>
  Line 71: the comprehension over \<^verbatim>\<open>zip(bbox, [height, width, height, width])\<close> and
  the unpacking of its result into four names, which raises \<^verbatim>\<open>ValueError\<close> unless
  there are exactly four values.
\<close>

definition scale_box :: "image \<Rightarrow> json \<Rightarrow> exn + box" where
  "scale_box img bbox =
     (case py_iter bbox of
        Inl e \<Rightarrow> Inl e
      | Inr coords \<Rightarrow>
          (case scale_all (zip coords [height img, width img, height img, width img]) of
             Inl e \<Rightarrow> Inl e
           | Inr [y0, x0, y1, x1] \<Rightarrow> Inr \<lparr>ymin = y0, xmin = x0, ymax = y1, xmax = x1\<rparr>
           | Inr _ \<Rightarrow> Inl ValueError))"

text \<open>Lines 80 to 83: the box is widened to the size of the label.\<close>

definition expand_box :: "int \<Rightarrow> int \<Rightarrow> box \<Rightarrow> box" where
  "expand_box label_width label_height b =
     (let b1 = (if flt (fsub (xmax b) (xmin b)) (of_pyint label_width)
                then b\<lparr>xmax := fadd (xmin b) (of_pyint label_width)\<rparr> else b)
      in if flt (fsub (ymax b1) (ymin b1)) (of_pyint label_height)
         then b1\<lparr>ymax := fadd (ymin b1) (of_pyint label_height)\<rparr> else b1)"

text \<open>Lines 85 and 86: the plate and the outlined text.\<close>

definition draw_label ::
  "addr \<Rightarrow> pystr \<Rightarrow> font \<Rightarrow> string \<Rightarrow> int \<Rightarrow> int \<Rightarrow> box \<Rightarrow> world \<Rightarrow> world" where
  "draw_label a label fnt color label_width label_height b w =
     (let w1 = draw a (Rectangle [xmin b, ymin b, fadd (xmin b) (of_pyint label_width),
                                  fadd (ymin b) (of_pyint label_height)] (Some color) None 1) w
      in draw_text_with_outline a label
           (fadd (xmin b) (of_pyint 5), fadd (ymin b) (of_pyint 5)) fnt ''white'' ''black'' w1)"

text \<open>
  One turn of the loop of \<^verbatim>\<open>draw_bounding_boxes\<close>, lines 70 to 86. The flag says
  whether lines 80 to 83 are run: the program runs them.
\<close>

definition draw_box ::
  "bool \<Rightarrow> env \<Rightarrow> addr \<Rightarrow> font \<Rightarrow> pystr \<Rightarrow> json \<Rightarrow> world \<Rightarrow> exn option \<times> world" where
  "draw_box expanding e a fnt label bbox w =
     (let (color, w0) = generate_random_color e w in
      case scale_box (heap w0 a) bbox of
        Inl ex \<Rightarrow> (Some ex, w0)
      | Inr b \<Rightarrow>
          let w1 = draw a (Rectangle [xmin b, ymin b, xmax b, ymax b] None (Some color) 3) w0;
              label_bbox = getbbox e fnt label;
              label_width = fst (snd (snd label_bbox)) - fst label_bbox + 10;
              label_height = snd (snd (snd label_bbox)) - fst (snd label_bbox) + 10;
              b' = (if expanding then expand_box label_width label_height b else b)
          in (None, draw_label a label fnt color label_width label_height b' w1))"

text \<open>
  The loop over \<^verbatim>\<open>bboxes.items()\<close>. An exception leaves the loop; what was drawn before
  it stays drawn. At the end the function returns the image it was given.
\<close>

fun draw_boxes ::
  "bool \<Rightarrow> env \<Rightarrow> addr \<Rightarrow> font \<Rightarrow> (pystr \<times> json) list \<Rightarrow> world \<Rightarrow> (exn + addr) \<times> world" where
  "draw_boxes expanding e a fnt [] w = (Inr a, w)"
| "draw_boxes expanding e a fnt ((label, bbox) # rest) w =
     (case draw_box expanding e a fnt label bbox w of
        (Some ex, w') \<Rightarrow> (Inl ex, w')
      | (None, w') \<Rightarrow> draw_boxes expanding e a fnt rest w')"

text \<open>
  The body of \<^verbatim>\<open>draw_bounding_boxes\<close>. Only a \<^verbatim>\<open>dict\<close> has \<^verbatim>\<open>items\<close>; for any other
  value the call raises \<^verbatim>\<open>AttributeError\<close>.
\<close>

definition render_with :: "bool \<Rightarrow> env \<Rightarrow> addr \<Rightarrow> json \<Rightarrow> world \<Rightarrow> (exn + addr) \<times> world" where
  "render_with expanding e a bboxes w =
     (let fnt = get_font e 20
      in case bboxes of
           JObject d \<Rightarrow> draw_boxes expanding e a fnt d w
         | _ \<Rightarrow> (Inl AttributeError, w))"

definition draw_bounding_boxes :: "env \<Rightarrow> addr \<Rightarrow> json \<Rightarrow> world \<Rightarrow> (exn + addr) \<times> world" where
  "draw_bounding_boxes = render_with True"

text \<open>
  The variant the program is compared with: \<^verbatim>\<open>draw_bounding_boxes\<close> with lines 80 to
  83 taken out.
\<close>

definition draw_bounding_boxes_unexpanded ::
  "env \<Rightarrow> addr \<Rightarrow> json \<Rightarrow> world \<Rightarrow> (exn + addr) \<times> world" where
  "draw_bounding_boxes_unexpanded = render_with False"

subsection \<open>The call in \<^verbatim>\<open>main\<close>\<close>

text \<open>The truth value of a decoded reply, as \<^verbatim>\<open>if bboxes:\<close> tests it.\<close>

definition truthy :: "json \<Rightarrow> bool" where
  "truthy v =
     (case v of
        JNull \<Rightarrow> False
      | JBool b \<Rightarrow> b
      | JInt i \<Rightarrow> i \<noteq> 0
      | JFloat f \<Rightarrow> f \<noteq> Fin 0
      | JString s \<Rightarrow> s \<noteq> []
      | JArray xs \<Rightarrow> xs \<noteq> []
      | JObject d \<Rightarrow> d \<noteq> [])"

text \<open>
  Lines 149 to 151 of \<^verbatim>\<open>main\<close>: the reply is decoded and, when the result is true, the
  boxes are drawn on a copy of the resized image. The result is the annotated image,
  \<open>None\<close> when nothing was to be drawn, or the exception that \<^verbatim>\<open>main\<close> catches and
  reports.
\<close>

definition process_response ::
  "env \<Rightarrow> addr \<Rightarrow> string \<Rightarrow> world \<Rightarrow> (exn + addr option) \<times> world" where
  "process_response e resized_image response_text w =
     (case extract_bounding_boxes response_text of
        Inl ex \<Rightarrow> (Inl ex, w)
      | Inr bboxes \<Rightarrow>
          if truthy bboxes then
            (let (copy, w1) = image_copy resized_image w
             in case draw_bounding_boxes e copy bboxes w1 of
                  (Inl ex, w2) \<Rightarrow> (Inl ex, w2)
                | (Inr image_with_boxes, w2) \<Rightarrow> (Inr (Some image_with_boxes), w2))
          else (Inr None, w))"

section \<open>Notions the claims are stated with\<close>

text \<open>
  A \<^emph>\<open>LabelledBoxes\<close> value, as the specification has it: a mapping (with distinct keys)
  from labels to boxes, a box being a list of exactly four numbers.
\<close>

definition is_number :: "json \<Rightarrow> bool" where
  "is_number v = (case v of JInt i \<Rightarrow> True | JFloat f \<Rightarrow> True | _ \<Rightarrow> False)"



text \<open>
  The elements of a list in the order of their first appearance; the entry of the
  mapping a match of the fallback pattern stands for; one assignment to a \<^verbatim>\<open>dict\<close>.
\<close>

fun first_appearance :: "'a list \<Rightarrow> 'a list" where
  "first_appearance [] = []"
| "first_appearance (x # xs) = x # filter (\<lambda>y. y \<noteq> x) (first_appearance xs)"







section \<open>The JSON decoder always returns\<close>






















section \<open>The decoder: strict parsing and the fallback pattern\<close>





lemma first_appearance_set [simp]: "set (first_appearance xs) = set xs"
  by (induction xs) auto

lemma first_appearance_distinct [simp]: "distinct (first_appearance xs)"
  by (induction xs) auto




















lemma is_number_py_int [simp]: "is_number (py_int ds)"
  by (simp add: is_number_def py_int_def)












section \<open>The renderer: drawing in place, the empty mapping, the unused expansion\<close>

lemma expand_box_min [simp]:
  "xmin (expand_box lw lh b) = xmin b" "ymin (expand_box lw lh b) = ymin b"
  by (simp_all add: expand_box_def Let_def)

lemma draw_label_expand:
  "draw_label a label fnt color lw lh (expand_box lw lh b) w =
   draw_label a label fnt color lw lh b w"
  by (simp add: draw_label_def)

lemma draw_box_expanding:
  "draw_box True e a fnt label bbox w = draw_box False e a fnt label bbox w"
  by (simp add: draw_box_def draw_label_expand Let_def split: prod.splits sum.splits)

lemma draw_boxes_expanding: "draw_boxes True e a fnt d w = draw_boxes False e a fnt d w"
  by (induction d arbitrary: w) (auto simp: draw_box_expanding split: prod.splits option.splits)

text \<open>
  Claim C6. Drawing an empty mapping of boxes returns the image it was given and leaves
  every image, and the random generator, as they were: nothing is drawn.
\<close>

theorem render_empty_mapping:
  "draw_bounding_boxes e img (JObject []) w = (Inr img, w)"
  by (simp add: draw_bounding_boxes_def render_with_def)

text \<open>
  Claim C10. For every image and every value of \<^verbatim>\<open>bboxes\<close>, \<^verbatim>\<open>draw_bounding_boxes\<close>
  and its variant without lines 80 to 83 return the same result and leave the same
  images: the widened \<^verbatim>\<open>xmax\<close> and \<^verbatim>\<open>ymax\<close> are never read, since the plate and the
  text are placed from \<^verbatim>\<open>xmin\<close>, \<^verbatim>\<open>ymin\<close> and the size of the label alone.
\<close>

theorem expansion_unobservable:
  "draw_bounding_boxes_unexpanded e img bboxes w = draw_bounding_boxes e img bboxes w"
  by (simp add: draw_bounding_boxes_unexpanded_def draw_bounding_boxes_def render_with_def
      draw_boxes_expanding split: json.splits)

end
